theory Spec2Isabelle
  imports Complex_Main "HOL-Library.Log_Nat"
begin

section \<open>Property listings: cache-aside access, invalidation and cache metrics\<close>

text \<open>
  A shallow embedding of \<^verbatim>\<open>get_all_properties\<close> and \<^verbatim>\<open>get_redis_cache_metrics\<close>
  (\<^verbatim>\<open>properties/utils.py\<close>), of the two signal handlers (\<^verbatim>\<open>properties/signals.py\<close>)
  and of the view \<^verbatim>\<open>cache_metrics\<close> (\<^verbatim>\<open>properties/views.py\<close>). The Django cache, the database and the Redis
  connection are the collaborators of that code; they appear here as fields of one
  \<open>world\<close> record which every operation takes and returns updated.
\<close>

subsection \<open>Data model\<close>

text \<open>
  Modelled from the spec: the \<^verbatim>\<open>Property\<close> model class, whose declaration
  (\<^verbatim>\<open>models.py\<close>) is missing. The fields are those of the spec's entity record
  (identifier, title, description, price as a decimal, location, creation timestamp),
  which are the ones \<^verbatim>\<open>views.py\<close> and \<^verbatim>\<open>signals.py\<close> read from an instance. The
  field \<^verbatim>\<open>id\<close> is written \<open>id'\<close>.
\<close>

record Property =
  id' :: int
  title :: string
  description :: string
  price :: rat
  location :: string
  created_at :: int

text \<open>Exceptions raised by the collaborators, each with its message.\<close>

datatype exn =
    ConnectionError string
  | ResponseError string
  | DatabaseError string
  | ZeroDivisionError string
  | OtherException string

fun message :: "exn \<Rightarrow> string" where
  "message (ConnectionError s) = s"
| "message (ResponseError s) = s"
| "message (DatabaseError s) = s"
| "message (ZeroDivisionError s) = s"
| "message (OtherException s) = s"

text \<open>
  The database: the rows of the property table in query order, and the fault (if
  any) with which a query fails.
\<close>

record database =
  table :: "Property list"
  fault :: "exn option"

text \<open>A cache entry is the stored value with the timeout it was stored with.\<close>

record cache_entry =
  cached_value :: "Property list"
  timeout :: nat

text \<open>Every call of the cache client is recorded, in order.\<close>

datatype cache_op =
    CacheGet string
  | CacheSet string "Property list" nat
  | CacheDelete string

text \<open>
  The Redis client obtained from \<^verbatim>\<open>get_redis_connection\<close>: its \<^verbatim>\<open>info()\<close> call
  either raises or returns the server statistics, a dictionary of integer counters.
\<close>

datatype redis_client = RedisClient (info: "exn + (string \<rightharpoonup> int)")

record world =
  cache :: "string \<rightharpoonup> cache_entry"
  cache_ops :: "cache_op list"
  db :: database
  db_queries :: nat
  redis :: "exn + redis_client"
  stdout :: "string list"
  logger :: "(string \<times> string) list"

subsection \<open>The collaborators' operations\<close>

text \<open>
  \<^verbatim>\<open>cache.get(key)\<close> returns the stored value, or \<^verbatim>\<open>None\<close> when the key is absent;
  \<^verbatim>\<open>cache.set(key, value, timeout)\<close> replaces the entry; \<^verbatim>\<open>cache.delete(key)\<close>
  removes it. The cache backend is taken to be reachable: what the framework does
  when it is not depends on settings that are not among the sources.
\<close>

definition cache_get :: "string \<Rightarrow> world \<Rightarrow> Property list option \<times> world" where
  "cache_get key w =
     (map_option cached_value (cache w key),
      w\<lparr>cache_ops := cache_ops w @ [CacheGet key]\<rparr>)"

definition cache_set :: "string \<Rightarrow> Property list \<Rightarrow> nat \<Rightarrow> world \<Rightarrow> world" where
  "cache_set key v t w =
     w\<lparr>cache := (cache w)(key \<mapsto> \<lparr>cached_value = v, timeout = t\<rparr>),
       cache_ops := cache_ops w @ [CacheSet key v t]\<rparr>"

definition cache_delete :: "string \<Rightarrow> world \<Rightarrow> world" where
  "cache_delete key w =
     w\<lparr>cache := (cache w)(key := None),
       cache_ops := cache_ops w @ [CacheDelete key]\<rparr>"

text \<open>
  \<^verbatim>\<open>list(Property.objects.all())\<close>: building the queryset touches nothing; turning
  it into a list runs one query, which returns all rows or raises.
\<close>

definition query_all :: "world \<Rightarrow> (exn + Property list) \<times> world" where
  "query_all w =
     ((case fault (db w) of Some e \<Rightarrow> Inl e | None \<Rightarrow> Inr (table (db w))),
      w\<lparr>db_queries := db_queries w + 1\<rparr>)"

definition print :: "string \<Rightarrow> world \<Rightarrow> world" where
  "print s w = w\<lparr>stdout := stdout w @ [s]\<rparr>"

definition logger_info :: "string \<Rightarrow> world \<Rightarrow> world" where
  "logger_info s w = w\<lparr>logger := logger w @ [(''INFO'', s)]\<rparr>"

definition logger_error :: "string \<Rightarrow> world \<Rightarrow> world" where
  "logger_error s w = w\<lparr>logger := logger w @ [(''ERROR'', s)]\<rparr>"

subsection \<open>Formatting numbers\<close>

fun str_nat :: "nat \<Rightarrow> string" where
  "str_nat n =
     (if n < 10 then [char_of (48 + n)]
      else str_nat (n div 10) @ [char_of (48 + n mod 10)])"

declare str_nat.simps [simp del]

definition str_int :: "int \<Rightarrow> string" where
  "str_int i = (if i < 0 then ''-'' @ str_nat (nat (- i)) else str_nat (nat i))"

subsection \<open>The cache-aside accessor (utils.py)\<close>

definition get_all_properties :: "world \<Rightarrow> (exn + Property list) \<times> world" where
  "get_all_properties w =
     (case cache_get ''all_properties'' w of
        (None, w1) \<Rightarrow>
          (let w2 = print ''Cache MISS: Fetching properties from database...'' w1 in
           case query_all w2 of
             (Inl e, w3) \<Rightarrow> (Inl e, w3)
           | (Inr properties, w3) \<Rightarrow>
               (let w4 = cache_set ''all_properties'' properties 3600 w3;
                    w5 = print (''Cached '' @ str_nat (length properties)
                                @ '' properties for 1 hour'') w4
                in (Inr properties, w5)))
      | (Some properties, w1) \<Rightarrow>
          (Inr properties, print ''Cache HIT: Using cached properties (fast!)'' w1))"

subsection \<open>The invalidation handlers (signals.py)\<close>

definition invalidate_property_cache_on_save :: "Property \<Rightarrow> bool \<Rightarrow> world \<Rightarrow> world" where
  "invalidate_property_cache_on_save instance created w =
     (let w1 = cache_delete ''all_properties'' w;
          action = (if created then ''created'' else ''updated'');
          w2 = print (''Cache invalidated: Property '' @ [CHR 0x27] @ title instance
                      @ [CHR 0x27] @ '' was '' @ action) w1
      in print ''Next request will fetch fresh data from database'' w2)"

definition invalidate_property_cache_on_delete :: "Property \<Rightarrow> world \<Rightarrow> world" where
  "invalidate_property_cache_on_delete instance w =
     (let w1 = cache_delete ''all_properties'' w;
          w2 = print (''Cache invalidated: Property '' @ [CHR 0x27] @ title instance
                      @ [CHR 0x27] @ '' was deleted'') w1
      in print ''Next request will fetch updated property list'' w2)"

subsection \<open>Python numbers\<close>

text \<open>
  Integers are unbounded. A \<^verbatim>\<open>float\<close> is a binary64 number and is modelled by the
  rational number it denotes; an operation on floats is the exact operation followed
  by rounding to the nearest float, ties going to the even significand. The
  exponent range is not modelled: the counters are those a Redis server reports, and
  with them no result below is large or small enough to leave the normal range.
\<close>

definition round_half_even :: "rat \<Rightarrow> int" where
  "round_half_even q =
     (let f = \<lfloor>q\<rfloor>; r = q - of_int f
      in if r < 1 / 2 then f else if 1 / 2 < r then f + 1
         else if even f then f else f + 1)"

text \<open>
  The exponent \<open>e\<close> of a positive \<open>q\<close>: the integer with
  \<open>2 powi e \<le> q\<close> and \<open>q < 2 powi (e + 1)\<close>.
\<close>

definition binade :: "rat \<Rightarrow> int" where
  "binade q = (if 1 \<le> q then bitlen \<lfloor>q\<rfloor> - 1 else - bitlen (\<lceil>1 / q\<rceil> - 1))"

text \<open>Rounding to 53 significant bits.\<close>

definition round_binary64 :: "rat \<Rightarrow> rat" where
  "round_binary64 q =
     (if q = 0 then 0
      else let ulp = 2 powi (binade \<bar>q\<bar> - 52)
           in sgn q * of_int (round_half_even (\<bar>q\<bar> / ulp)) * ulp)"

text \<open>
  \<^verbatim>\<open>a / b\<close> on two integers is the correctly rounded quotient, and raises
  \<^verbatim>\<open>ZeroDivisionError\<close> when \<open>b\<close> is zero; \<^verbatim>\<open>x * y\<close> on floats is the rounded
  product; a literal such as \<^verbatim>\<open>0.9\<close> is the float nearest to the decimal.
\<close>

definition int_truediv :: "int \<Rightarrow> int \<Rightarrow> exn + rat" where
  "int_truediv a b =
     (if b = 0 then Inl (ZeroDivisionError ''division by zero'')
      else Inr (round_binary64 (of_int a / of_int b)))"

definition float_mul :: "rat \<Rightarrow> rat \<Rightarrow> rat" where
  "float_mul x y = round_binary64 (x * y)"

definition float_lit :: "rat \<Rightarrow> rat" where
  "float_lit q = round_binary64 q"

text \<open>\<^verbatim>\<open>d.get(key, default)\<close> on a dictionary.\<close>

definition dict_get :: "('k \<rightharpoonup> 'v) \<Rightarrow> 'k \<Rightarrow> 'v \<Rightarrow> 'v" where
  "dict_get d k dflt = (case d k of None \<Rightarrow> dflt | Some v \<Rightarrow> v)"

text \<open>
  The format specifications \<^verbatim>\<open>.nf\<close> and \<^verbatim>\<open>.n%\<close>: the exact value of the float,
  rounded to \<open>n\<close> decimals with ties going to the even digit; the percent form
  multiplies by 100 first, as a float.
\<close>

definition format_fixed :: "nat \<Rightarrow> rat \<Rightarrow> string" where
  "format_fixed n x =
     (let scaled = nat (round_half_even (\<bar>x\<bar> * 10 ^ n));
          whole = scaled div 10 ^ n;
          frac = str_nat (scaled mod 10 ^ n)
      in (if x < 0 then ''-'' else []) @ str_nat whole
         @ (if n = 0 then [] else ''.'' @ replicate (n - length frac) (CHR ''0'') @ frac))"

definition format_percent :: "nat \<Rightarrow> rat \<Rightarrow> string" where
  "format_percent n x = format_fixed n (float_mul x 100) @ ''%''"

subsection \<open>The metrics reporter (utils.py)\<close>

record metrics =
  hits :: int
  misses :: int
  total_requests :: int
  hit_ratio :: rat
  hit_ratio_percent :: rat

text \<open>The \<^verbatim>\<open>except Exception\<close> clause: log and print the message, return \<^verbatim>\<open>None\<close>.\<close>

definition metrics_except :: "exn \<Rightarrow> world \<Rightarrow> metrics option \<times> world" where
  "metrics_except e w =
     (let error_msg = ''Error getting cache metrics: '' @ message e;
          w1 = logger_error error_msg w;
          w2 = print error_msg w1
      in (None, w2))"

text \<open>
  The local variables carry a prime, their names being those of the dictionary keys.
  The literal \<^verbatim>\<open>0.0\<close> is the float zero.
\<close>

definition get_redis_cache_metrics :: "world \<Rightarrow> metrics option \<times> world" where
  "get_redis_cache_metrics w =
     (case redis w of
        Inl e \<Rightarrow> metrics_except e w
      | Inr redis_client \<Rightarrow>
          (case info redis_client of
             Inl e \<Rightarrow> metrics_except e w
           | Inr info_dict \<Rightarrow>
               (let hits' = dict_get info_dict ''keyspace_hits'' 0;
                    misses' = dict_get info_dict ''keyspace_misses'' 0;
                    total_requests' = hits' + misses'
                in case (if 0 < total_requests' then int_truediv hits' total_requests'
                         else Inr 0) of
                     Inl e \<Rightarrow> metrics_except e w
                   | Inr hit_ratio' \<Rightarrow>
                       (let metrics' = \<lparr>hits = hits', misses = misses',
                                          total_requests = total_requests',
                                          hit_ratio = hit_ratio',
                                          hit_ratio_percent = float_mul hit_ratio' 100\<rparr>;
                            w1 = logger_info ''Redis Cache Metrics:'' w;
                            w2 = logger_info (''  Cache Hits: '' @ str_int hits') w1;
                            w3 = logger_info (''  Cache Misses: '' @ str_int misses') w2;
                            w4 = logger_info (''  Total Requests: ''
                                              @ str_int total_requests') w3;
                            w5 = logger_info (''  Hit Ratio: ''
                                              @ format_percent 2 hit_ratio') w4;
                            w6 = print (''Cache Performance: ''
                                        @ format_percent 2 hit_ratio'
                                        @ '' hit ratio ('' @ str_int hits' @ '' hits, ''
                                        @ str_int misses' @ '' misses)'') w5
                        in (Some metrics', w6)))))"

subsection \<open>The metrics view (views.py)\<close>

datatype json = JString string | JInt int | JObject "(string \<times> json) list"

record http_response =
  content :: json
  status_code :: nat

text \<open>The payload of the successful response, built from the metrics dictionary \<open>m\<close>.\<close>

definition metrics_payload :: "metrics \<Rightarrow> json" where
  "metrics_payload m =
     JObject
       [(''cache_metrics'', JObject
           [(''hits'', JInt (hits m)),
            (''misses'', JInt (misses m)),
            (''total_requests'', JInt (total_requests m)),
            (''hit_ratio'', JString (format_fixed 4 (hit_ratio m))),
            (''hit_ratio_percent'',
               JString (format_fixed 2 (hit_ratio_percent m) @ ''%''))]),
        (''interpretation'', JObject
           [(''performance'', JString
               (if float_lit (9 / 10) \<le> hit_ratio m then ''excellent''
                else if float_lit (7 / 10) \<le> hit_ratio m then ''good''
                else if float_lit (5 / 10) \<le> hit_ratio m then ''average''
                else ''poor'')),
            (''recommendation'', JString
               (if float_lit (7 / 10) \<le> hit_ratio m
                then ''Cache is working well!''
                else ''Consider optimizing cache strategy''))]),
        (''status'', JString ''success'')]"

text \<open>The view ignores its request, so the model takes none.\<close>

definition cache_metrics :: "world \<Rightarrow> http_response \<times> world" where
  "cache_metrics w =
     (case get_redis_cache_metrics w of
        (None, w1) \<Rightarrow>
          (\<lparr>content = JObject [(''error'', JString ''Could not retrieve cache metrics''),
                               (''status'', JString ''error'')],
            status_code = 500\<rparr>, w1)
      | (Some m, w1) \<Rightarrow>
          (\<lparr>content = metrics_payload m, status_code = 200\<rparr>, w1))"

text \<open>Reading a field of a payload by the path of its keys.\<close>

fun json_path :: "string list \<Rightarrow> json \<Rightarrow> json option" where
  "json_path [] j = Some j"
| "json_path (k # ks) (JObject kvs) =
     (case map_of kvs k of None \<Rightarrow> None | Some j \<Rightarrow> json_path ks j)"
| "json_path (k # ks) j = None"

subsection \<open>Example worlds\<close>

definition loft :: Property where
  "loft = \<lparr>id' = 1, title = ''Loft'', description = ''Two rooms'', price = 1200,
            location = ''Nairobi'', created_at = 0\<rparr>"

definition villa :: Property where
  "villa = \<lparr>id' = 2, title = ''Villa'', description = ''Sea view'', price = 5400,
             location = ''Mombasa'', created_at = 7\<rparr>"

definition cold_world :: world where
  "cold_world = \<lparr>cache = Map.empty, cache_ops = [],
                  db = \<lparr>table = [loft], fault = None\<rparr>, db_queries = 0,
                  redis = Inl (ConnectionError ''refused''), stdout = [], logger = []\<rparr>"

definition warm_world :: world where
  "warm_world = cold_world\<lparr>cache := [''all_properties'' \<mapsto>
                                        \<lparr>cached_value = [loft], timeout = 3600\<rparr>]\<rparr>"

definition empty_world :: world where
  "empty_world = cold_world\<lparr>db := \<lparr>table = [], fault = None\<rparr>\<rparr>"

definition redis_world :: "int \<Rightarrow> int \<Rightarrow> world" where
  "redis_world h m =
     cold_world\<lparr>redis := Inr (RedisClient (Inr [''keyspace_hits'' \<mapsto> h,
                                                  ''keyspace_misses'' \<mapsto> m]))\<rparr>"

definition stalled_world :: world where
  "stalled_world =
     cold_world\<lparr>redis := Inr (RedisClient (Inl (ResponseError ''LOADING'')))\<rparr>"

definition broken_world :: world where
  "broken_world = cold_world\<lparr>db := \<lparr>table = [loft],
                                       fault = Some (DatabaseError ''connection lost'')\<rparr>\<rparr>"

subsection \<open>The three paths of the accessor\<close>

text \<open>The keys named by a list of cache calls.\<close>

fun op_key :: "cache_op \<Rightarrow> string" where
  "op_key (CacheGet k) = k"
| "op_key (CacheSet k v t) = k"
| "op_key (CacheDelete k) = k"

text \<open>The cache calls made since the trace had the length \<open>n\<close>.\<close>

definition ops_since :: "nat \<Rightarrow> world \<Rightarrow> cache_op list" where
  "ops_since n w = drop n (cache_ops w)"

lemma get_all_properties_on_hit:
  assumes "cache w ''all_properties'' = Some e"
  shows "get_all_properties w =
           (Inr (cached_value e),
            w\<lparr>cache_ops := cache_ops w @ [CacheGet ''all_properties''],
              stdout := stdout w @ [''Cache HIT: Using cached properties (fast!)'']\<rparr>)"
  using assms by (simp add: get_all_properties_def cache_get_def print_def)

lemma get_all_properties_on_miss:
  assumes "cache w ''all_properties'' = None" and "fault (db w) = None"
  shows "get_all_properties w =
           (Inr (table (db w)),
            w\<lparr>cache := (cache w)(''all_properties'' \<mapsto>
                         \<lparr>cached_value = table (db w), timeout = 3600\<rparr>),
              cache_ops := cache_ops w @ [CacheGet ''all_properties'',
                             CacheSet ''all_properties'' (table (db w)) 3600],
              db_queries := db_queries w + 1,
              stdout := stdout w @ [''Cache MISS: Fetching properties from database...'',
                          ''Cached '' @ str_nat (length (table (db w)))
                            @ '' properties for 1 hour'']\<rparr>)"
  using assms
  by (simp add: get_all_properties_def cache_get_def print_def query_all_def
      cache_set_def Let_def)

lemma get_all_properties_on_failure:
  assumes "cache w ''all_properties'' = None" and "fault (db w) = Some x"
  shows "get_all_properties w =
           (Inl x,
            w\<lparr>cache_ops := cache_ops w @ [CacheGet ''all_properties''],
              db_queries := db_queries w + 1,
              stdout := stdout w @ [''Cache MISS: Fetching properties from database...'']\<rparr>)"
  using assms
  by (simp add: get_all_properties_def cache_get_def print_def query_all_def Let_def)

lemma invalidate_on_save_world:
  "invalidate_property_cache_on_save instance created w =
     w\<lparr>cache := (cache w)(''all_properties'' := None),
       cache_ops := cache_ops w @ [CacheDelete ''all_properties''],
       stdout := stdout w @
         [''Cache invalidated: Property '' @ [CHR 0x27] @ title instance @ [CHR 0x27]
            @ '' was '' @ (if created then ''created'' else ''updated''),
          ''Next request will fetch fresh data from database'']\<rparr>"
  by (simp add: invalidate_property_cache_on_save_def cache_delete_def print_def Let_def)

lemma invalidate_on_delete_world:
  "invalidate_property_cache_on_delete instance w =
     w\<lparr>cache := (cache w)(''all_properties'' := None),
       cache_ops := cache_ops w @ [CacheDelete ''all_properties''],
       stdout := stdout w @
         [''Cache invalidated: Property '' @ [CHR 0x27] @ title instance @ [CHR 0x27]
            @ '' was deleted'',
          ''Next request will fetch updated property list'']\<rparr>"
  by (simp add: invalidate_property_cache_on_delete_def cache_delete_def print_def Let_def)

subsection \<open>Properties of the accessor\<close>

text \<open>
  C1. When the cache read of \<open>all_properties\<close> finds nothing (and the database answers
  the query), the accessor runs one query for all rows, stores exactly that list
  under \<open>all_properties\<close> with a timeout of 3600 seconds, and returns that list.
\<close>

theorem get_all_properties_miss:
  assumes "cache w ''all_properties'' = None" and "fault (db w) = None"
  shows "fst (get_all_properties w) = Inr (table (db w))
       \<and> cache (snd (get_all_properties w)) =
           (cache w)(''all_properties'' \<mapsto>
              \<lparr>cached_value = table (db w), timeout = 3600\<rparr>)
       \<and> ops_since (length (cache_ops w)) (snd (get_all_properties w)) =
           [CacheGet ''all_properties'', CacheSet ''all_properties'' (table (db w)) 3600]
       \<and> db_queries (snd (get_all_properties w)) = db_queries w + 1"
  by (simp add: get_all_properties_on_miss [OF assms] ops_since_def)

theorem get_all_properties_miss_witness:
  "cache cold_world ''all_properties'' = None \<and> fault (db cold_world) = None
   \<and> fst (get_all_properties cold_world) = Inr [loft]
   \<and> cache (snd (get_all_properties cold_world)) ''all_properties'' =
       Some \<lparr>cached_value = [loft], timeout = 3600\<rparr>
   \<and> ops_since 0 (snd (get_all_properties cold_world)) =
       [CacheGet ''all_properties'', CacheSet ''all_properties'' [loft] 3600]
   \<and> db_queries (snd (get_all_properties cold_world)) = 1"
  using get_all_properties_miss [of cold_world]
  by (simp add: cold_world_def)

text \<open>
  C2. When the cache holds an entry under \<open>all_properties\<close>, the accessor returns the
  cached value unchanged; it runs no database query, and the only cache call it makes
  is the one read: the cache contents after the call are those before it.
\<close>

theorem get_all_properties_hit:
  assumes "cache w ''all_properties'' = Some e"
  shows "fst (get_all_properties w) = Inr (cached_value e)
       \<and> cache (snd (get_all_properties w)) = cache w
       \<and> ops_since (length (cache_ops w)) (snd (get_all_properties w)) =
           [CacheGet ''all_properties'']
       \<and> db_queries (snd (get_all_properties w)) = db_queries w
       \<and> db (snd (get_all_properties w)) = db w"
  by (simp add: get_all_properties_on_hit [OF assms] ops_since_def)

theorem get_all_properties_hit_witness:
  "cache warm_world ''all_properties'' = Some \<lparr>cached_value = [loft], timeout = 3600\<rparr>
   \<and> fst (get_all_properties warm_world) = Inr [loft]
   \<and> cache (snd (get_all_properties warm_world)) = cache warm_world
   \<and> ops_since 0 (snd (get_all_properties warm_world)) = [CacheGet ''all_properties'']
   \<and> db_queries (snd (get_all_properties warm_world)) = 0"
  using get_all_properties_hit [of warm_world "\<lparr>cached_value = [loft], timeout = 3600\<rparr>"]
  by (simp add: warm_world_def cold_world_def)

text \<open>
  C3. Each handler deletes the key \<open>all_properties\<close>, whichever instance the event
  carries and whether it was created or updated: its one cache call is that delete,
  and afterwards the key is absent and every other key is as before. The key is
  the same string that every cache call of the accessor names.
\<close>

theorem invalidation_deletes_key:
  "cache (invalidate_property_cache_on_save instance created w) =
     (cache w)(''all_properties'' := None)
   \<and> cache (invalidate_property_cache_on_delete instance w) =
       (cache w)(''all_properties'' := None)
   \<and> cache (invalidate_property_cache_on_save instance created w) ''all_properties'' = None
   \<and> cache (invalidate_property_cache_on_delete instance w) ''all_properties'' = None
   \<and> ops_since (length (cache_ops w))
         (invalidate_property_cache_on_save instance created w) =
       [CacheDelete ''all_properties'']
   \<and> ops_since (length (cache_ops w))
         (invalidate_property_cache_on_delete instance w) =
       [CacheDelete ''all_properties'']
   \<and> set (map op_key (ops_since (length (cache_ops w)) (snd (get_all_properties w)))) =
       {''all_properties''}"
proof -
  have "set (map op_key (ops_since (length (cache_ops w)) (snd (get_all_properties w)))) =
          {''all_properties''}"
  proof (cases "cache w ''all_properties''")
    case None
    show ?thesis
    proof (cases "fault (db w)")
      case no_fault: None
      show ?thesis
        by (simp add: get_all_properties_on_miss [OF None no_fault] ops_since_def)
    next
      case (Some x)
      show ?thesis
        by (simp add: get_all_properties_on_failure [OF None Some] ops_since_def)
    qed
  next
    case (Some e)
    show ?thesis
      by (simp add: get_all_properties_on_hit [OF Some] ops_since_def)
  qed
  then show ?thesis
    by (simp add: invalidate_on_save_world invalidate_on_delete_world ops_since_def)
qed

text \<open>
  C4. Start from a populated cache; let a mutation leave the database in any state
  \<open>d\<close> that answers queries, and let the handler of its event run. The next call of
  the accessor then runs exactly one query, returns the rows of \<open>d\<close> (not the value
  that was cached before) and stores them again.
\<close>

theorem read_after_mutation:
  assumes "cache w ''all_properties'' = Some e" and "fault d = None"
  shows "(let after = get_all_properties
                        (invalidate_property_cache_on_save instance created (w\<lparr>db := d\<rparr>))
          in fst after = Inr (table d)
           \<and> db_queries (snd after) = db_queries w + 1
           \<and> cache (snd after) ''all_properties'' =
               Some \<lparr>cached_value = table d, timeout = 3600\<rparr>)
       \<and> (let after = get_all_properties
                        (invalidate_property_cache_on_delete instance (w\<lparr>db := d\<rparr>))
          in fst after = Inr (table d)
           \<and> db_queries (snd after) = db_queries w + 1
           \<and> cache (snd after) ''all_properties'' =
               Some \<lparr>cached_value = table d, timeout = 3600\<rparr>)"
proof -
  let ?s = "invalidate_property_cache_on_save instance created (w\<lparr>db := d\<rparr>)"
  let ?r = "invalidate_property_cache_on_delete instance (w\<lparr>db := d\<rparr>)"
  have s: "cache ?s ''all_properties'' = None" "fault (db ?s) = None"
    using assms(2) by (simp_all add: invalidate_on_save_world)
  have r: "cache ?r ''all_properties'' = None" "fault (db ?r) = None"
    using assms(2) by (simp_all add: invalidate_on_delete_world)
  have "table (db ?s) = table d" "db_queries ?s = db_queries w"
    "table (db ?r) = table d" "db_queries ?r = db_queries w"
    by (simp_all add: invalidate_on_save_world invalidate_on_delete_world)
  then show ?thesis
    by (simp add: get_all_properties_on_miss [OF s] get_all_properties_on_miss [OF r] Let_def)
qed

theorem read_after_mutation_witness:
  "cache warm_world ''all_properties'' = Some \<lparr>cached_value = [loft], timeout = 3600\<rparr>
   \<and> fault \<lparr>table = [loft, villa], fault = None\<rparr> = None
   \<and> fst (get_all_properties (invalidate_property_cache_on_save villa True
            (warm_world\<lparr>db := \<lparr>table = [loft, villa], fault = None\<rparr>\<rparr>))) = Inr [loft, villa]
   \<and> db_queries (snd (get_all_properties (invalidate_property_cache_on_save villa True
            (warm_world\<lparr>db := \<lparr>table = [loft, villa], fault = None\<rparr>\<rparr>)))) = 1
   \<and> fst (get_all_properties (invalidate_property_cache_on_delete loft
            (warm_world\<lparr>db := \<lparr>table = [], fault = None\<rparr>\<rparr>))) = Inr []
   \<and> db_queries (snd (get_all_properties (invalidate_property_cache_on_delete loft
            (warm_world\<lparr>db := \<lparr>table = [], fault = None\<rparr>\<rparr>)))) = 1"
  using read_after_mutation [of warm_world "\<lparr>cached_value = [loft], timeout = 3600\<rparr>"
      "\<lparr>table = [loft, villa], fault = None\<rparr>" villa True]
    read_after_mutation [of warm_world "\<lparr>cached_value = [loft], timeout = 3600\<rparr>"
      "\<lparr>table = [], fault = None\<rparr>" loft]
  by (simp add: warm_world_def cold_world_def Let_def)

text \<open>
  C5. When the cache read finds nothing and the database query fails, the accessor
  hands the failure to its caller; it makes no cache call besides the read, and the
  cache contents are those before the call.
\<close>

theorem get_all_properties_store_failure:
  assumes "cache w ''all_properties'' = None" and "fault (db w) = Some x"
  shows "fst (get_all_properties w) = Inl x
       \<and> cache (snd (get_all_properties w)) = cache w
       \<and> ops_since (length (cache_ops w)) (snd (get_all_properties w)) =
           [CacheGet ''all_properties'']"
  by (simp add: get_all_properties_on_failure [OF assms] ops_since_def)

theorem get_all_properties_store_failure_witness:
  "cache broken_world ''all_properties'' = None
   \<and> fault (db broken_world) = Some (DatabaseError ''connection lost'')
   \<and> fst (get_all_properties broken_world) = Inl (DatabaseError ''connection lost'')
   \<and> cache (snd (get_all_properties broken_world)) = cache broken_world
   \<and> ops_since 0 (snd (get_all_properties broken_world)) = [CacheGet ''all_properties'']"
  using get_all_properties_store_failure [of broken_world "DatabaseError ''connection lost''"]
  by (simp add: broken_world_def cold_world_def)

text \<open>
  C9. With an empty table, a call that misses stores the empty list under
  \<open>all_properties\<close> and returns it as a result, not as a failure. The call after it,
  with nothing in between, is a hit: it returns the empty list again, runs no query
  and makes no cache call besides its read.
\<close>

theorem empty_table_is_cached:
  assumes "cache w ''all_properties'' = None"
    and "fault (db w) = None" and "table (db w) = []"
  shows "fst (get_all_properties w) = Inr []
       \<and> cache (snd (get_all_properties w)) ''all_properties'' =
           Some \<lparr>cached_value = [], timeout = 3600\<rparr>
       \<and> fst (get_all_properties (snd (get_all_properties w))) = Inr []
       \<and> db_queries (snd (get_all_properties (snd (get_all_properties w)))) =
           db_queries (snd (get_all_properties w))
       \<and> ops_since (length (cache_ops (snd (get_all_properties w))))
           (snd (get_all_properties (snd (get_all_properties w)))) =
           [CacheGet ''all_properties'']"
proof -
  let ?w1 = "snd (get_all_properties w)"
  have first: "fst (get_all_properties w) = Inr []"
    "cache ?w1 ''all_properties'' = Some \<lparr>cached_value = [], timeout = 3600\<rparr>"
    using assms(3) by (simp_all add: get_all_properties_on_miss [OF assms(1,2)])
  show ?thesis
    using first by (simp add: get_all_properties_on_hit [OF first(2)] ops_since_def)
qed

theorem empty_table_is_cached_witness:
  "cache empty_world ''all_properties'' = None
   \<and> fault (db empty_world) = None \<and> table (db empty_world) = []
   \<and> fst (get_all_properties empty_world) = Inr []
   \<and> cache (snd (get_all_properties empty_world)) ''all_properties'' =
       Some \<lparr>cached_value = [], timeout = 3600\<rparr>
   \<and> fst (get_all_properties (snd (get_all_properties empty_world))) = Inr []
   \<and> db_queries (snd (get_all_properties (snd (get_all_properties empty_world)))) = 1"
  using empty_table_is_cached [of empty_world]
  by (simp add: empty_world_def cold_world_def get_all_properties_def cache_get_def
      print_def query_all_def cache_set_def Let_def)

subsection \<open>Rounding to binary64\<close>

text \<open>
  Rounding is monotone and leaves 0 and 1 alone. The proof follows the binades:
  within one binade the unit in the last place is fixed and rounding to an integer
  multiple of it is monotone; a rounded value never leaves the closure of its binade.
\<close>

lemma round_half_even_of_int: "round_half_even (of_int n) = n"
  by (simp add: round_half_even_def)

lemma round_half_even_mono:
  assumes "x \<le> y" shows "round_half_even x \<le> round_half_even y"
proof (cases "\<lfloor>x\<rfloor> = \<lfloor>y\<rfloor>")
  case True
  then show ?thesis using assms
    by (auto simp add: round_half_even_def Let_def)
next
  case False
  then have "\<lfloor>x\<rfloor> + 1 \<le> \<lfloor>y\<rfloor>" using assms floor_mono [of x y] by linarith
  moreover have "round_half_even x \<le> \<lfloor>x\<rfloor> + 1"
    by (auto simp add: round_half_even_def Let_def)
  moreover have "\<lfloor>y\<rfloor> \<le> round_half_even y"
    by (auto simp add: round_half_even_def Let_def)
  ultimately show ?thesis by linarith
qed


lemma binade_bounds:
  assumes "0 < q"
  shows "2 powi binade q \<le> q" and "q < 2 powi (binade q + 1)"
proof -
  have "2 powi binade q \<le> q \<and> q < 2 powi (binade q + 1)"
  proof (cases "1 \<le> q")
    case True
    let ?n = "\<lfloor>q\<rfloor>"
    have n: "0 < ?n" using True by simp
    have b: "1 \<le> bitlen ?n" using n by (simp add: bitlen_alt_def)
    have lo: "(2::int) ^ nat (bitlen ?n - 1) \<le> ?n" and hi: "?n < 2 ^ nat (bitlen ?n)"
      using bitlen_bounds [OF n] by simp_all
    have "(2::rat) ^ nat (bitlen ?n - 1) = of_int (2 ^ nat (bitlen ?n - 1))" by simp
    also have "\<dots> \<le> of_int ?n" using lo by (simp only: of_int_le_iff)
    also have "\<dots> \<le> q" by simp
    finally have 1: "(2::rat) ^ nat (bitlen ?n - 1) \<le> q" .
    have "?n + 1 \<le> 2 ^ nat (bitlen ?n)" using hi by simp
    then have "of_int (?n + 1) \<le> (of_int (2 ^ nat (bitlen ?n)) :: rat)"
      by (simp only: of_int_le_iff)
    moreover have "q < of_int (?n + 1)" by linarith
    ultimately have 2: "q < (2::rat) ^ nat (bitlen ?n)" by simp
    show ?thesis
      using True b 1 2 by (simp add: binade_def power_int_def)
  next
    case False
    let ?n = "\<lceil>1 / q\<rceil> - 1"
    have q1: "1 < 1 / q" using False assms by simp
    then have "2 \<le> \<lceil>1 / q\<rceil>" by (simp add: le_ceiling_iff) 
    then have n: "0 < ?n" by simp
    have b: "1 \<le> bitlen ?n" using n by (simp add: bitlen_alt_def)
    have lo: "(2::int) ^ nat (bitlen ?n - 1) \<le> ?n" and hi: "?n < 2 ^ nat (bitlen ?n)"
      using bitlen_bounds [OF n] by simp_all
    have "of_int ?n < 1 / q" by linarith
    moreover have "(2::rat) ^ nat (bitlen ?n - 1) \<le> of_int ?n"
      using lo by (metis of_int_le_iff of_int_numeral of_int_power)
    ultimately have "(2::rat) ^ nat (bitlen ?n - 1) < 1 / q" by linarith
    then have 2: "q < 1 / 2 ^ nat (bitlen ?n - 1)"
      using assms by (simp add: field_simps)
    have "1 / q \<le> of_int (?n + 1)" by simp
    moreover have "of_int (?n + 1) \<le> (2::rat) ^ nat (bitlen ?n)"
      using hi by (metis of_int_le_iff of_int_numeral of_int_power zless_imp_add1_zle)
    ultimately have "1 / q \<le> (2::rat) ^ nat (bitlen ?n)" by linarith
    then have 1: "1 / 2 ^ nat (bitlen ?n) \<le> q"
      using assms by (simp add: field_simps)
    have e: "binade q = - bitlen ?n" using False by (simp add: binade_def)
    have "2 powi (- bitlen ?n) = (1::rat) / 2 ^ nat (bitlen ?n)"
      using b by (simp add: power_int_def field_simps)
    moreover have "2 powi (- bitlen ?n + 1) = (1::rat) / 2 ^ nat (bitlen ?n - 1)"
      using b by (auto simp add: power_int_def field_simps nat_diff_distrib)
    ultimately show ?thesis using 1 2 e by simp
  qed
  then show "2 powi binade q \<le> q" and "q < 2 powi (binade q + 1)" by simp_all
qed


lemma round_binary64_pos:
  assumes "0 < q"
  shows "round_binary64 q = of_int (round_half_even (q / 2 powi (binade q - 52)))
                            * 2 powi (binade q - 52)"
  using assms by (simp add: round_binary64_def Let_def)


lemma round_binary64_binade:
  assumes "0 < q"
  shows "2 powi binade q \<le> round_binary64 q" and "round_binary64 q \<le> 2 powi (binade q + 1)"
proof -
  let ?u = "(2::rat) powi (binade q - 52)"
  have u: "0 < ?u" by simp
  have lo: "2 powi binade q = 2 ^ 52 * ?u" and hi: "2 powi (binade q + 1) = 2 ^ 53 * ?u"
    by (simp_all add: power_int_diff power_int_add)
  have "2 ^ 52 \<le> q / ?u"
    using binade_bounds(1) [OF assms] u unfolding lo by (simp add: le_divide_eq)
  then have "round_half_even (of_int (2 ^ 52)) \<le> round_half_even (q / ?u)"
    by (intro round_half_even_mono) simp
  then have "(2::int) ^ 52 \<le> round_half_even (q / ?u)"
    by (simp only: round_half_even_of_int)
  then have "(of_int (2 ^ 52) :: rat) \<le> of_int (round_half_even (q / ?u))"
    by (simp only: of_int_le_iff)
  then have "2 ^ 52 * ?u \<le> of_int (round_half_even (q / ?u)) * ?u"
    using u by simp
  then show "2 powi binade q \<le> round_binary64 q"
    unfolding lo round_binary64_pos [OF assms] .
  have "q / ?u \<le> 2 ^ 53"
    using binade_bounds(2) [OF assms] u unfolding hi by (simp add: divide_le_eq)
  then have "round_half_even (q / ?u) \<le> round_half_even (of_int (2 ^ 53))"
    by (intro round_half_even_mono) simp
  then have "round_half_even (q / ?u) \<le> (2::int) ^ 53"
    by (simp only: round_half_even_of_int)
  then have "of_int (round_half_even (q / ?u)) \<le> (of_int (2 ^ 53) :: rat)"
    by (simp only: of_int_le_iff)
  then have "of_int (round_half_even (q / ?u)) * ?u \<le> 2 ^ 53 * ?u"
    using u by simp
  then show "round_binary64 q \<le> 2 powi (binade q + 1)"
    unfolding hi round_binary64_pos [OF assms] .
qed



lemma round_binary64_sign:
  "0 < q \<Longrightarrow> 0 < round_binary64 q"
  using round_binary64_binade(1) [of q] zero_less_power_int [of "2::rat" "binade q"]
  by linarith




subsection \<open>The paths of the metrics reporter\<close>

lemma metrics_on_info:
  assumes "redis w = Inr c" and "info c = Inr i"
  shows "fst (get_redis_cache_metrics w) =
           Some \<lparr>hits = dict_get i ''keyspace_hits'' 0,
                 misses = dict_get i ''keyspace_misses'' 0,
                 total_requests =
                   dict_get i ''keyspace_hits'' 0 + dict_get i ''keyspace_misses'' 0,
                 hit_ratio =
                   (if 0 < dict_get i ''keyspace_hits'' 0 + dict_get i ''keyspace_misses'' 0
                    then round_binary64
                           (of_int (dict_get i ''keyspace_hits'' 0)
                            / of_int (dict_get i ''keyspace_hits'' 0
                                      + dict_get i ''keyspace_misses'' 0))
                    else 0),
                 hit_ratio_percent =
                   float_mul
                     (if 0 < dict_get i ''keyspace_hits'' 0 + dict_get i ''keyspace_misses'' 0
                      then round_binary64
                             (of_int (dict_get i ''keyspace_hits'' 0)
                              / of_int (dict_get i ''keyspace_hits'' 0
                                        + dict_get i ''keyspace_misses'' 0))
                      else 0) 100\<rparr>"
  using assms
  by (simp add: get_redis_cache_metrics_def int_truediv_def Let_def)

lemma metrics_on_exception:
  assumes "redis w = Inl e \<or> (\<exists>c. redis w = Inr c \<and> info c = Inl e)"
  shows "get_redis_cache_metrics w =
           (None,
            w\<lparr>stdout := stdout w @ [''Error getting cache metrics: '' @ message e],
              logger := logger w
                @ [(''ERROR'', ''Error getting cache metrics: '' @ message e)]\<rparr>)"
  using assms
  by (auto simp add: get_redis_cache_metrics_def metrics_except_def logger_error_def
      print_def Let_def)



text \<open>The floats of some decimals, and how they compare.\<close>

lemma float_values:
  "round_binary64 (9 / 10) = 8106479329266893 / 9007199254740992"
  "round_binary64 (1 / 3) = 6004799503160661 / 18014398509481984"
  "float_mul (6004799503160661 / 18014398509481984) 100 =
     2345624805922133 / 70368744177664"
  by code_simp+

lemma float_lit_order:
  "float_lit (5 / 10) \<le> float_lit (7 / 10)"
  "float_lit (7 / 10) \<le> float_lit (9 / 10)"
  "float_lit (7 / 10) \<le> float_lit (8999 / 10000)"
  "float_lit (8999 / 10000) < float_lit (9 / 10)"
  "float_lit (5 / 10) \<le> float_lit (6999 / 10000)"
  "float_lit (6999 / 10000) < float_lit (7 / 10)"
  "float_lit (4999 / 10000) < float_lit (5 / 10)"
  by code_simp+

text \<open>What the view returns when the reporter returns a snapshot.\<close>

lemma cache_metrics_on_snapshot:
  assumes "fst (get_redis_cache_metrics w) = Some m"
  shows "fst (cache_metrics w) = \<lparr>content = metrics_payload m, status_code = 200\<rparr>"
  using assms by (cases "get_redis_cache_metrics w") (simp add: cache_metrics_def)

text \<open>The snapshot of a server that reports the counters \<open>h\<close> and \<open>k\<close>.\<close>

lemma snapshot_of_counters:
  "\<exists>m. fst (get_redis_cache_metrics (redis_world h k)) = Some m
        \<and> hit_ratio m = (if 0 < h + k then round_binary64 (of_int h / of_int (h + k)) else 0)"
  by (simp add: metrics_on_info
        [of _ "RedisClient (Inr [''keyspace_hits'' \<mapsto> h, ''keyspace_misses'' \<mapsto> k])"]
      redis_world_def cold_world_def dict_get_def)

lemma snapshot_one_in_three:
  "fst (get_redis_cache_metrics (redis_world 1 2)) =
     Some \<lparr>hits = 1, misses = 2, total_requests = 3,
           hit_ratio = 6004799503160661 / 18014398509481984,
           hit_ratio_percent = 2345624805922133 / 70368744177664\<rparr>"
  by (simp add: metrics_on_info
        [of _ "RedisClient (Inr [''keyspace_hits'' \<mapsto> 1, ''keyspace_misses'' \<mapsto> 2])"]
      redis_world_def cold_world_def dict_get_def float_values)

subsection \<open>Properties of the metrics reporter and its view\<close>



text \<open>
  C7. Whenever the reporter returns a snapshot, the view answers with status 200 and
  a report that names the tier \<open>excellent\<close> exactly when \<open>hit_ratio \<ge> 0.9\<close>, \<open>good\<close>
  exactly when \<open>0.7 \<le> hit_ratio < 0.9\<close>, \<open>average\<close> exactly when
  \<open>0.5 \<le> hit_ratio < 0.7\<close> and \<open>poor\<close> exactly when \<open>hit_ratio < 0.5\<close>; the report
  carries the positive recommendation exactly when \<open>hit_ratio \<ge> 0.7\<close> and the
  suggestion to optimise otherwise. The thresholds are the float literals of the
  view, and \<open>hit_ratio\<close> is that of the snapshot, whatever its value.
\<close>

theorem performance_classification:
  assumes "fst (get_redis_cache_metrics w) = Some m"
  shows "status_code (fst (cache_metrics w)) = 200
       \<and> json_path [''status''] (content (fst (cache_metrics w))) = Some (JString ''success'')
       \<and> (json_path [''interpretation'', ''performance''] (content (fst (cache_metrics w))) =
            Some (JString ''excellent'')) =
           (float_lit (9 / 10) \<le> hit_ratio m)
       \<and> (json_path [''interpretation'', ''performance''] (content (fst (cache_metrics w))) =
            Some (JString ''good'')) =
           (float_lit (7 / 10) \<le> hit_ratio m \<and> hit_ratio m < float_lit (9 / 10))
       \<and> (json_path [''interpretation'', ''performance''] (content (fst (cache_metrics w))) =
            Some (JString ''average'')) =
           (float_lit (5 / 10) \<le> hit_ratio m \<and> hit_ratio m < float_lit (7 / 10))
       \<and> (json_path [''interpretation'', ''performance''] (content (fst (cache_metrics w))) =
            Some (JString ''poor'')) =
           (hit_ratio m < float_lit (5 / 10))
       \<and> (json_path [''interpretation'', ''recommendation'']
             (content (fst (cache_metrics w))) =
            Some (JString ''Cache is working well!'')) =
           (float_lit (7 / 10) \<le> hit_ratio m)
       \<and> (json_path [''interpretation'', ''recommendation'']
             (content (fst (cache_metrics w))) =
            Some (JString ''Consider optimizing cache strategy'')) =
           (hit_ratio m < float_lit (7 / 10))"
  unfolding cache_metrics_on_snapshot [OF assms]
  using float_lit_order(1,2) by (auto simp add: metrics_payload_def)

theorem performance_classification_witness:
  "json_path [''interpretation'', ''performance'']
       (content (fst (cache_metrics (redis_world 9 1)))) = Some (JString ''excellent'')
   \<and> json_path [''interpretation'', ''performance'']
       (content (fst (cache_metrics (redis_world 8999 1001)))) = Some (JString ''good'')
   \<and> json_path [''interpretation'', ''performance'']
       (content (fst (cache_metrics (redis_world 7 3)))) = Some (JString ''good'')
   \<and> json_path [''interpretation'', ''performance'']
       (content (fst (cache_metrics (redis_world 6999 3001)))) = Some (JString ''average'')
   \<and> json_path [''interpretation'', ''performance'']
       (content (fst (cache_metrics (redis_world 5 5)))) = Some (JString ''average'')
   \<and> json_path [''interpretation'', ''performance'']
       (content (fst (cache_metrics (redis_world 4999 5001)))) = Some (JString ''poor'')
   \<and> json_path [''interpretation'', ''performance'']
       (content (fst (cache_metrics (redis_world 0 0)))) = Some (JString ''poor'')
   \<and> json_path [''interpretation'', ''recommendation'']
       (content (fst (cache_metrics (redis_world 7 3)))) =
       Some (JString ''Cache is working well!'')
   \<and> json_path [''interpretation'', ''recommendation'']
       (content (fst (cache_metrics (redis_world 6999 3001)))) =
       Some (JString ''Consider optimizing cache strategy'')
   \<and> status_code (fst (cache_metrics (redis_world 9 1))) = 200"
proof -
  note order = float_lit_order [unfolded float_lit_def]
  obtain a where a: "fst (get_redis_cache_metrics (redis_world 9 1)) = Some a"
    "hit_ratio a = round_binary64 (9 / 10)"
    using snapshot_of_counters [of 9 1] by auto
  obtain b where b: "fst (get_redis_cache_metrics (redis_world 8999 1001)) = Some b"
    "hit_ratio b = round_binary64 (8999 / 10000)"
    using snapshot_of_counters [of 8999 1001] by auto
  obtain c where c: "fst (get_redis_cache_metrics (redis_world 7 3)) = Some c"
    "hit_ratio c = round_binary64 (7 / 10)"
    using snapshot_of_counters [of 7 3] by auto
  obtain d where d: "fst (get_redis_cache_metrics (redis_world 6999 3001)) = Some d"
    "hit_ratio d = round_binary64 (6999 / 10000)"
    using snapshot_of_counters [of 6999 3001] by auto
  obtain e where e: "fst (get_redis_cache_metrics (redis_world 5 5)) = Some e"
    "hit_ratio e = round_binary64 (5 / 10)"
    using snapshot_of_counters [of 5 5] by auto
  obtain f where f: "fst (get_redis_cache_metrics (redis_world 4999 5001)) = Some f"
    "hit_ratio f = round_binary64 (4999 / 10000)"
    using snapshot_of_counters [of 4999 5001] by auto
  obtain g where g: "fst (get_redis_cache_metrics (redis_world 0 0)) = Some g"
    "hit_ratio g = 0"
    using snapshot_of_counters [of 0 0] by auto
  have zero: "(0::rat) < round_binary64 (5 / 10)"
    using round_binary64_sign [of "5 / 10"] by simp
  show ?thesis
    using performance_classification [OF a(1)] performance_classification [OF b(1)]
      performance_classification [OF c(1)] performance_classification [OF d(1)]
      performance_classification [OF e(1)] performance_classification [OF f(1)]
      performance_classification [OF g(1)] order zero
    by (simp add: a(2) b(2) c(2) d(2) e(2) f(2) g(2) float_lit_def)
qed

text \<open>
  C8. When obtaining the Redis connection raises, or the \<open>info\<close> call on it raises
  (whatever the exception), \<open>get_redis_cache_metrics\<close> returns \<open>None\<close> instead of
  raising, and the metrics view answers with the error payload, whose status field
  is \<open>error\<close>, under HTTP status 500.
\<close>

theorem metrics_unreachable:
  assumes "redis w = Inl e \<or> (\<exists>c. redis w = Inr c \<and> info c = Inl e)"
  shows "fst (get_redis_cache_metrics w) = None
       \<and> fst (cache_metrics w) =
           \<lparr>content = JObject [(''error'', JString ''Could not retrieve cache metrics''),
                               (''status'', JString ''error'')],
            status_code = 500\<rparr>"
  by (simp add: cache_metrics_def metrics_on_exception [OF assms])

theorem metrics_unreachable_witness:
  "redis cold_world = Inl (ConnectionError ''refused'')
   \<and> fst (get_redis_cache_metrics cold_world) = None
   \<and> status_code (fst (cache_metrics cold_world)) = 500
   \<and> redis stalled_world = Inr (RedisClient (Inl (ResponseError ''LOADING'')))
   \<and> fst (get_redis_cache_metrics stalled_world) = None
   \<and> json_path [''status''] (content (fst (cache_metrics stalled_world))) =
       Some (JString ''error'')"
  using metrics_unreachable [of cold_world "ConnectionError ''refused''"]
    metrics_unreachable [of stalled_world "ResponseError ''LOADING''"]
  by (simp add: cold_world_def stalled_world_def)

text \<open>
  With 1 hit and 2 misses the snapshot has the ratio 0.3333333333333333 and the
  percentage 33.33333333333333. The percentage is not 100 times the ratio: that
  product is no float, and the field holds the float next to it.
\<close>

theorem percent_not_exact_product:
  "fst (get_redis_cache_metrics (redis_world 1 2)) =
     Some \<lparr>hits = 1, misses = 2, total_requests = 3,
           hit_ratio = 6004799503160661 / 18014398509481984,
           hit_ratio_percent = 2345624805922133 / 70368744177664\<rparr>
   \<and> hit_ratio_percent \<lparr>hits = 1, misses = 2, total_requests = 3,
           hit_ratio = 6004799503160661 / 18014398509481984,
           hit_ratio_percent = 2345624805922133 / 70368744177664\<rparr> \<noteq>
       100 * hit_ratio \<lparr>hits = 1, misses = 2, total_requests = 3,
           hit_ratio = 6004799503160661 / 18014398509481984,
           hit_ratio_percent = 2345624805922133 / 70368744177664\<rparr>"
  using snapshot_one_in_three by simp

text \<open>
  C10, as amended. In every snapshot that \<open>get_redis_cache_metrics\<close> returns, the
  field \<open>hit_ratio_percent\<close> is 100 times the field \<open>hit_ratio\<close> rounded to the nearest
  float: the float product \<^verbatim>\<open>hit_ratio * 100\<close>.
\<close>

theorem percent_of_ratio:
  assumes "fst (get_redis_cache_metrics w) = Some m"
  shows "hit_ratio_percent m = round_binary64 (hit_ratio m * 100)"
proof (cases "redis w")
  case (Inl e)
  then have "fst (get_redis_cache_metrics w) = None"
    by (simp add: metrics_on_exception)
  with assms show ?thesis by simp
next
  case (Inr c)
  show ?thesis
  proof (cases "info c")
    case (Inl e)
    with Inr have "fst (get_redis_cache_metrics w) = None"
      by (simp add: metrics_on_exception)
    with assms show ?thesis by simp
  next
    case info: (Inr i)
    show ?thesis
      using assms unfolding metrics_on_info [OF Inr info]
      by (auto simp add: float_mul_def)
  qed
qed

theorem percent_of_ratio_witness:
  "fst (get_redis_cache_metrics (redis_world 1 2)) =
     Some \<lparr>hits = 1, misses = 2, total_requests = 3,
           hit_ratio = 6004799503160661 / 18014398509481984,
           hit_ratio_percent = 2345624805922133 / 70368744177664\<rparr>
   \<and> (2345624805922133 / 70368744177664 :: rat) =
       round_binary64 (6004799503160661 / 18014398509481984 * 100)"
  using snapshot_one_in_three percent_of_ratio [OF snapshot_one_in_three]
  by (simp del: times_divide_eq_left)

end
